theory Spec2Isabelle
  imports Main "HOL-Library.Char_ord" "HOL-Library.List_Lexorder" "HOL-Library.Product_Lexorder"
    "HOL-Library.Multiset"
begin

section \<open>Data model of the HAProxy reconciler (synapse\_haproxy.go)\<close>

text \<open>
  Go strings are byte strings: \<^typ>\<open>string\<close>. Go's \<open>int\<close> fields (ports, weights) are
  only copied and printed, never computed with, so they are \<^typ>\<open>int\<close>; \<open>len\<close> is
  \<^typ>\<open>nat\<close>. Go's \<open>error\<close> is \<open>error option\<close>, \<open>None\<close> being \<open>nil\<close>.
  A record field is a global name in Isabelle, so the fields \<open>Name\<close>, \<open>Host\<close>,
  \<open>Port\<close>, \<open>Weight\<close> that several Go structs share carry the struct as a prefix.
\<close>

text \<open>synapse\_configuration.go\<close>

record SynapseExtraSectionConfiguration =
  Head :: string
  Content :: "string list"

record SynapseCommandHAProxyConfiguration =
  Binary :: string
  Arguments :: "string list"

record SynapseHAProxyConfiguration =
  ReloadCommand :: SynapseCommandHAProxyConfiguration
  ConfigFilePath :: string
  SocketFilePath :: string
  DoWrites :: bool
  DoReloads :: bool
  DoSocket :: bool
  Global :: "string list"
  Defaults :: "string list"
  ExtraSections :: "SynapseExtraSectionConfiguration list"

record SynapseServiceServerConfiguration =
  conf_Name :: string
  conf_Host :: string
  conf_Port :: int

text \<open>
  Modelled from the spec: the declarations of \<open>HAProxyBackendServer\<close>,
  \<open>HAProxyBackend\<close>, \<open>SynapseService\<close> and of the element type that
  \<open>service.Discovery.GetDiscoveredHosts()\<close> returns are not among the source files. The
  fields are the ones synapse\_haproxy.go reads and writes; their types follow the
  spec's data model (Server, Backend, DiscoveryReport). The field \<open>Discovery\<close> of a
  service holds what \<open>GetDiscoveredHosts()\<close> returns at the tick under consideration.
\<close>

record DiscoveredHost =
  host_Name :: string
  host_Host :: string
  host_Port :: int
  Maintenance :: bool
  host_Weight :: int
  host_HAProxyServerOptions :: string

record HAProxyBackendServer =
  server_Name :: string
  server_Host :: string
  server_Port :: int
  Disabled :: bool
  Weight :: int
  HAProxyServerOptions :: string

record HAProxyBackend =
  backend_Name :: string
  backend_Port :: int
  ServerOptions :: string
  Listen :: "string list"
  Servers :: "HAProxyBackendServer list"

type_synonym HAProxyBackendSlice = "HAProxyBackend list"

record SynapseService =
  service_Name :: string
  HAPPort :: int
  HAPServerOptions :: string
  HAPListen :: "string list"
  DefaultServers :: "SynapseServiceServerConfiguration list"
  Discovery :: "DiscoveredHost list"

record HAProxy =
  Configuration :: SynapseHAProxyConfiguration
  Backends :: HAProxyBackendSlice
  Services :: "SynapseService list"
  StateFile :: string
  WriteInterval :: int

datatype error =
    ErrBackendCount string
  | ErrMarshal
  | ErrUnmarshal
  | ErrWriteFile
  | ErrReadFile
  | ErrExec
  | ErrDial
  | ErrSocketWrite
  | ErrSocketRead

text \<open>The zero value of the struct, and \<open>Initialize\<close>, which leaves \<open>Backends\<close> alone.\<close>

definition zero_Configuration :: SynapseHAProxyConfiguration where
  "zero_Configuration =
     \<lparr>ReloadCommand = \<lparr>Binary = [], Arguments = []\<rparr>, ConfigFilePath = [],
      SocketFilePath = [], DoWrites = False, DoReloads = False, DoSocket = False,
      Global = [], Defaults = [], ExtraSections = []\<rparr>"

definition zero_HAProxy :: HAProxy where
  "zero_HAProxy =
     \<lparr>Configuration = zero_Configuration, Backends = [], Services = [],
      StateFile = [], WriteInterval = 0\<rparr>"

definition Initialize ::
  "SynapseHAProxyConfiguration \<Rightarrow> SynapseService list \<Rightarrow> string \<Rightarrow> int \<Rightarrow> HAProxy \<Rightarrow> HAProxy"
where
  "Initialize conf services stateFile writeInterval h =
     h\<lparr>Configuration := conf, Services := services, StateFile := stateFile,
       WriteInterval := (if writeInterval > 0 then writeInterval else 1000)\<rparr>"

section \<open>strconv.Itoa\<close>

definition digits :: string where
  "digits = ''0123456789''"

fun Itoa_nat :: "nat \<Rightarrow> string" where
  "Itoa_nat n =
     (if n < 10 then [digits ! n] else Itoa_nat (n div 10) @ [digits ! (n mod 10)])"

declare Itoa_nat.simps [simp del]

definition Itoa :: "int \<Rightarrow> string" where
  "Itoa i = (if i < 0 then CHR ''-'' # Itoa_nat (nat (- i)) else Itoa_nat (nat i))"

section \<open>The Differ: isBackendsModified\<close>

text \<open>
  The loop state is the triple of the function's local variables
  \<open>(isModified, hasToRestart, socketCommands)\<close>. \<open>compare_server\<close> is the body of the
  inner \<open>range backend.Servers\<close> loop, \<open>compare_backend\<close> the body of the outer
  \<open>range newBackends\<close> loop; both loops index the applied snapshot with the loop index,
  as the source does, and run only where the lengths were found equal.
\<close>

type_synonym diff_vars = "bool \<times> bool \<times> string list"

definition compare_server ::
  "string \<Rightarrow> HAProxyBackendServer \<Rightarrow> HAProxyBackendServer \<Rightarrow> diff_vars \<Rightarrow> diff_vars"
where
  "compare_server backendName server applied =
     (\<lambda>(isModified, hasToRestart, socketCommands).
        if server_Name server = server_Name applied
           \<and> server_Host server = server_Host applied
           \<and> server_Port server = server_Port applied
        then
          (if Disabled server \<noteq> Disabled applied then
             (if Disabled server
              then (True, hasToRestart,
                    socketCommands @ [''disable server '' @ backendName @ ''/'' @ server_Name server])
              else (True, hasToRestart,
                    socketCommands @ [''enable server '' @ backendName @ ''/'' @ server_Name server]))
           else (isModified, hasToRestart, socketCommands))
        else (True, True, socketCommands))"

definition compare_backend :: "HAProxyBackend \<Rightarrow> HAProxyBackend \<Rightarrow> diff_vars \<Rightarrow> diff_vars" where
  "compare_backend backend applied vars =
     (if length (Servers backend) \<noteq> length (Servers applied)
      then (True, True, snd (snd vars))
      else fold (\<lambda>i. compare_server (backend_Name backend) (Servers backend ! i) (Servers applied ! i))
             [0 ..< length (Servers backend)] vars)"

definition isBackendsModified ::
  "HAProxy \<Rightarrow> HAProxyBackendSlice \<Rightarrow> bool \<times> bool \<times> string list \<times> error option"
where
  "isBackendsModified h newBackends =
     (if length newBackends \<noteq> length (Services h) then
        (False, False, [],
         Some (ErrBackendCount
           (''['' @ Itoa (int (length newBackends)) @ ''] Backends to watch != [''
              @ Itoa (int (length (Services h))) @ ''] Services'')))
      else if length newBackends = length (Backends h) then
        (case fold (\<lambda>index. compare_backend (newBackends ! index) (Backends h ! index))
                [0 ..< length newBackends] (False, False, [])
         of (isModified, hasToRestart, socketCommands) \<Rightarrow>
              (isModified, hasToRestart, socketCommands, None))
      else (True, True, [], None))"

text \<open>
  The three classes of the spec's Differ, read off the two flags the way \<open>Run\<close>
  branches on them.
\<close>

datatype delta = NoChange | EnableDisableOnly "string list" | Structural

definition classify :: "bool \<times> bool \<times> string list \<times> error option \<Rightarrow> delta option" where
  "classify r =
     (case r of (isModified, hasToRestart, socketCommands, err) \<Rightarrow>
        if err \<noteq> None then None
        else if \<not> isModified then Some NoChange
        else if hasToRestart then Some Structural
        else Some (EnableDisableOnly socketCommands))"

section \<open>The Assembler: getAllBackends\<close>

text \<open>
  Modelled from the spec: the \<open>Less\<close> methods that \<open>sort.Sort\<close> uses on
  \<open>backend.Servers\<close> and on the backend slice are not among the source files. The spec
  orders servers by (name, host, port) and backends by name; strings compare bytewise
  and lexicographically, as Go's \<open><\<close> does. \<open>sort.Sort\<close> returns a sorted permutation;
  the insertion sort \<^const>\<open>sort_key\<close> stands for it. Where the keys are distinct
  there is one sorted permutation only. Where two servers have the same key,
  \<open>sort.Sort\<close> promises no order between them; on a slice of fewer than seven
  elements, however, it is a plain insertion sort in every Go release: it swaps two
  neighbours only when \<open>Less\<close> holds and so leaves servers with the same key in
  the order of the input, as \<^const>\<open>sort_key\<close> does. The concrete inputs have two
  servers.
\<close>

definition server_key :: "HAProxyBackendServer \<Rightarrow> string \<times> string \<times> int" where
  "server_key s = (server_Name s, server_Host s, server_Port s)"

definition sort_Servers :: "HAProxyBackendServer list \<Rightarrow> HAProxyBackendServer list" where
  "sort_Servers = sort_key server_key"

definition sort_Backends :: "HAProxyBackendSlice \<Rightarrow> HAProxyBackendSlice" where
  "sort_Backends = sort_key backend_Name"

definition default_hapServer :: "SynapseServiceServerConfiguration \<Rightarrow> HAProxyBackendServer" where
  "default_hapServer server =
     \<lparr>server_Name = conf_Name server, server_Host = conf_Host server,
      server_Port = conf_Port server, Disabled = False, Weight = 0,
      HAProxyServerOptions = []\<rparr>"

definition discovered_hapServer :: "DiscoveredHost \<Rightarrow> HAProxyBackendServer" where
  "discovered_hapServer server =
     \<lparr>server_Name = host_Name server, server_Host = host_Host server,
      server_Port = host_Port server, Disabled = Maintenance server,
      Weight = host_Weight server,
      HAProxyServerOptions = host_HAProxyServerOptions server\<rparr>"

definition service_backend :: "SynapseService \<Rightarrow> HAProxyBackend" where
  "service_backend service =
     \<lparr>backend_Name = service_Name service, backend_Port = HAPPort service,
      ServerOptions = HAPServerOptions service, Listen = HAPListen service,
      Servers = sort_Servers (map default_hapServer (DefaultServers service)
                              @ map discovered_hapServer (Discovery service))\<rparr>"

definition getAllBackends :: "HAProxy \<Rightarrow> HAProxyBackendSlice" where
  "getAllBackends h = sort_Backends (map service_backend (Services h))"

section \<open>Config-file serialization: the text SaveConfiguration builds\<close>

definition add_lines :: "string \<Rightarrow> string list \<Rightarrow> string" where
  "add_lines data lines = foldl (\<lambda>data line. data @ ''  '' @ line @ ''\<newline>'') data lines"

definition add_server :: "HAProxyBackend \<Rightarrow> string \<Rightarrow> HAProxyBackendServer \<Rightarrow> string" where
  "add_server backend data server =
     (let data = data @ ''  server '';
          data = data @ server_Name server @ '' '';
          data = data @ server_Host server @ '':'';
          data = data @ Itoa (server_Port server) @ '' '';
          data = data @ ServerOptions backend;
          data = (if HAProxyServerOptions server \<noteq> []
                  then data @ '' '' @ HAProxyServerOptions server else data);
          data = (if Disabled server then data @ '' disabled'' else data)
      in data @ ''\<newline>'')"

definition add_backend :: "string \<Rightarrow> HAProxyBackend \<Rightarrow> string" where
  "add_backend data backend =
     (let data = data @ ''backend '' @ backend_Name backend @ ''\<newline>'';
          data = data @ ''  bind '' @ Itoa (backend_Port backend) @ ''\<newline>'';
          data = add_lines data (Listen backend);
          data = foldl (add_server backend) data (Servers backend)
      in data @ ''\<newline>'')"

definition configuration_data :: "HAProxy \<Rightarrow> string" where
  "configuration_data h =
     (let data = ''#\<newline>'';
          data = data @ ''# HAProxy Configuration File Generated by GO-Synapse\<newline>'';
          data = data @ ''# If you modify it, be aware that you modifications will be overriden soon\<newline>'';
          data = data @ ''#\<newline>\<newline>'';
          data = data @ ''global\<newline>'';
          data = add_lines data (Global (Configuration h));
          data = data @ ''\<newline>defaults\<newline>'';
          data = add_lines data (Defaults (Configuration h));
          data = data @ ''\<newline>''
      in foldl add_backend data (Backends h))"

section \<open>The Effector and the State Store, with their I/O made explicit\<close>

text \<open>
  The operating system is a record of answers: what each call of the tick returns.
  \<open>conn_Write\<close> and \<open>conn_Read\<close> take the position of the command in the list, so
  that every exchange on the socket has an answer of its own. A function of the
  program returns, besides its Go result, the list of the I/O calls it has made, in
  order; logging is left out. Both files are written with mode 0644.
\<close>

datatype io_action =
    WriteFile string string
  | Exec string "string list"
  | Dial string
  | ConnWrite string
  | ConnRead
  | ConnClose

record io_env =
  json_Marshal :: "HAProxyBackendSlice \<Rightarrow> string \<times> error option"
  ioutil_WriteFile :: "string \<Rightarrow> string \<Rightarrow> error option"
  command_Run :: "string \<Rightarrow> string list \<Rightarrow> error option"
  net_Dial :: "string \<Rightarrow> error option"
  conn_Write :: "nat \<Rightarrow> string \<Rightarrow> error option"
  conn_Read :: "nat \<Rightarrow> string \<times> error option"

definition SaveState :: "io_env \<Rightarrow> HAProxy \<Rightarrow> error option \<times> io_action list" where
  "SaveState env h =
     (case json_Marshal env (Backends h) of (data, err) \<Rightarrow>
        if err \<noteq> None then (err, [])
        else (case ioutil_WriteFile env (StateFile h) data of err \<Rightarrow>
                if err \<noteq> None then (err, [WriteFile (StateFile h) data])
                else (None, [WriteFile (StateFile h) data])))"

definition SaveConfiguration :: "io_env \<Rightarrow> HAProxy \<Rightarrow> error option \<times> io_action list" where
  "SaveConfiguration env h =
     (if DoWrites (Configuration h) then
        (let data = configuration_data h;
             err = ioutil_WriteFile env (ConfigFilePath (Configuration h)) data
         in if err \<noteq> None
            then (err, [WriteFile (ConfigFilePath (Configuration h)) data])
            else (None, [WriteFile (ConfigFilePath (Configuration h)) data]))
      else (None, []))"

definition reloadHAProxyDaemon :: "io_env \<Rightarrow> HAProxy \<Rightarrow> error option \<times> io_action list" where
  "reloadHAProxyDaemon env h =
     (if DoReloads (Configuration h) then
        (let Path = Binary (ReloadCommand (Configuration h));
             Args = Arguments (ReloadCommand (Configuration h));
             err = command_Run env Path Args
         in if err \<noteq> None then (err, [Exec Path Args]) else (None, [Exec Path Args]))
      else (None, []))"

text \<open>
  The loop over the commands of \<open>changeBackendsStateBySocket\<close>. After a successful
  \<open>Write\<close> and a successful \<open>Read\<close> the variable \<open>err\<close> is \<open>nil\<close>; the branch for
  a reply other than one newline closes the connection and returns that \<open>err\<close>.
\<close>

fun send_commands :: "io_env \<Rightarrow> nat \<Rightarrow> string list \<Rightarrow> error option \<times> io_action list" where
  "send_commands env k [] = (None, [ConnClose])"
| "send_commands env k (command # commands) =
     (case conn_Write env k command of err \<Rightarrow>
        if err \<noteq> None then (err, [ConnWrite command, ConnClose])
        else (case conn_Read env k of (return_string, err) \<Rightarrow>
          if err \<noteq> None then (err, [ConnWrite command, ConnRead, ConnClose])
          else if return_string \<noteq> ''\<newline>''
          then (err, [ConnWrite command, ConnRead, ConnClose])
          else (case send_commands env (Suc k) commands of (err, actions) \<Rightarrow>
                  (err, ConnWrite command # ConnRead # actions))))"

definition changeBackendsStateBySocket ::
  "io_env \<Rightarrow> HAProxy \<Rightarrow> string list \<Rightarrow> error option \<times> io_action list"
where
  "changeBackendsStateBySocket env h commands =
     (if DoSocket (Configuration h) then
        (case net_Dial env (SocketFilePath (Configuration h)) of err \<Rightarrow>
           if err \<noteq> None then (err, [Dial (SocketFilePath (Configuration h))])
           else (case send_commands env 0 commands of (err, actions) \<Rightarrow>
                   (err, Dial (SocketFilePath (Configuration h)) # actions)))
      else (None, []))"

section \<open>One iteration of the loop of Run\<close>

text \<open>
  \<open>Run_iteration h backends env\<close> is the body of the loop from the call of
  \<open>isBackendsModified\<close> on, for the candidate \<open>backends\<close>; \<open>Run_tick\<close> is the whole
  body, the candidate being what \<open>getAllBackends\<close> returns. The result is the
  reconciler after the iteration and the I/O calls made, in order.
\<close>

definition Run_iteration :: "HAProxy \<Rightarrow> HAProxyBackendSlice \<Rightarrow> io_env \<Rightarrow> HAProxy \<times> io_action list" where
  "Run_iteration h backends env =
     (case isBackendsModified h backends of (isModified, hasToRestart, socketCommands, err) \<Rightarrow>
        if err \<noteq> None then (h, [])
        else if isModified then
          (let h = h\<lparr>Backends := backends\<rparr>;
               saved = (if StateFile h \<noteq> [] then snd (SaveState env h) else [])
           in case SaveConfiguration env h of (err, written) \<Rightarrow>
                if err \<noteq> None then (h, saved @ written)
                else if hasToRestart then
                  (h, saved @ written @ snd (reloadHAProxyDaemon env h))
                else if DoReloads (Configuration h) \<and> \<not> DoSocket (Configuration h) then
                  (h, saved @ written @ snd (reloadHAProxyDaemon env h))
                else (case changeBackendsStateBySocket env h socketCommands of (err, sent) \<Rightarrow>
                        if err \<noteq> None
                        then (h, saved @ written @ sent @ snd (reloadHAProxyDaemon env h))
                        else (h, saved @ written @ sent)))
        else (h, []))"

definition Run_tick :: "HAProxy \<Rightarrow> io_env \<Rightarrow> HAProxy \<times> io_action list" where
  "Run_tick h env = Run_iteration h (getAllBackends h) env"

section \<open>The State Store at startup: LoadState\<close>

text \<open>
  A \<open>time.Time\<close> is its number of nanoseconds since the epoch, a \<open>time.Duration\<close> a
  number of nanoseconds. \<open>os.Stat\<close>, \<open>time.Now\<close>, \<open>ioutil.ReadFile\<close> and
  \<open>json.Unmarshal\<close> are answers of the environment; \<open>json.Unmarshal\<close> decodes into
  the slice it is given and may leave it partly filled when it fails.
\<close>

record load_env =
  os_Stat :: "string \<Rightarrow> int \<times> error option"
  time_Now :: int
  ioutil_ReadFile :: "string \<Rightarrow> string \<times> error option"
  json_Unmarshal :: "string \<Rightarrow> HAProxyBackendSlice \<Rightarrow> HAProxyBackendSlice \<times> error option"

definition Millisecond :: int where
  "Millisecond = 1000000"

definition LoadState :: "load_env \<Rightarrow> HAProxy \<Rightarrow> HAProxy \<times> error option" where
  "LoadState env h =
     (case os_Stat env (StateFile h) of (fileModTime, err) \<Rightarrow>
        if err = None then
          (let now = time_Now env;
               ttl = 2000;
               expirationDate = fileModTime + ttl * Millisecond
           in if expirationDate < now then (h, None)
              else (case ioutil_ReadFile env (StateFile h) of (file, err) \<Rightarrow>
                      if err \<noteq> None then (h, err)
                      else (case json_Unmarshal env file (Backends h) of (decoded, err) \<Rightarrow>
                              if err \<noteq> None then (h\<lparr>Backends := decoded\<rparr>, err)
                              else (h\<lparr>Backends := decoded\<rparr>, None))))
        else (h, None))"

section \<open>Notions of the specification, used to state the properties\<close>

text \<open>
  The commands the spec's Differ announces for \<open>EnableDisableOnly\<close>: going through
  the backends in order and through the servers of each in order, one directive for
  each server whose \<open>disabled\<close> flag differs from the applied one, naming the
  candidate's backend and server.
\<close>

definition changed_servers :: "HAProxyBackend \<Rightarrow> HAProxyBackend \<Rightarrow> HAProxyBackendServer list" where
  "changed_servers backend applied =
     map fst (filter (\<lambda>(server, old). Disabled server \<noteq> Disabled old)
                (zip (Servers backend) (Servers applied)))"

definition spec_command :: "string \<Rightarrow> HAProxyBackendServer \<Rightarrow> string" where
  "spec_command backendName server =
     (if Disabled server then ''disable server '' else ''enable server '')
       @ backendName @ ''/'' @ server_Name server"

definition spec_commands :: "HAProxyBackendSlice \<Rightarrow> HAProxyBackendSlice \<Rightarrow> string list" where
  "spec_commands candidate applied =
     concat (map (\<lambda>(backend, old). map (spec_command (backend_Name backend)) (changed_servers backend old))
               (zip candidate applied))"

text \<open>
  Two snapshots have the same servers in the same order: as many backends, and in
  each backend as many servers, agreeing one by one on (name, host, port).
\<close>

definition same_servers :: "HAProxyBackendSlice \<Rightarrow> HAProxyBackendSlice \<Rightarrow> bool" where
  "same_servers candidate applied \<longleftrightarrow>
     list_all2 (\<lambda>backend old. list_all2 (\<lambda>server s. server_key server = server_key s)
                                (Servers backend) (Servers old))
       candidate applied"

text \<open>Some server of the candidate has a \<open>disabled\<close> flag other than the applied one.\<close>

definition flags_differ :: "HAProxyBackendSlice \<Rightarrow> HAProxyBackendSlice \<Rightarrow> bool" where
  "flags_differ candidate applied \<longleftrightarrow>
     list_ex (\<lambda>(backend, old). list_ex (\<lambda>(server, s). Disabled server \<noteq> Disabled s)
                                  (zip (Servers backend) (Servers old)))
       (zip candidate applied)"

text \<open>A snapshot with every weight set to zero: what is left when weights are ignored.\<close>

definition without_Weight :: "HAProxyBackendSlice \<Rightarrow> HAProxyBackendSlice" where
  "without_Weight backends =
     map (\<lambda>backend. backend\<lparr>Servers := map (\<lambda>server. server\<lparr>Weight := 0\<rparr>) (Servers backend)\<rparr>) backends"


text \<open>The reloads among the I/O calls of a tick, and a socket pass in which everything succeeds.\<close>

fun is_reload :: "io_action \<Rightarrow> bool" where
  "is_reload (Exec path args) = True"
| "is_reload action = False"

definition socket_pass_succeeds :: "io_env \<Rightarrow> HAProxy \<Rightarrow> string list \<Rightarrow> bool" where
  "socket_pass_succeeds env h commands \<longleftrightarrow>
     net_Dial env (SocketFilePath (Configuration h)) = None
     \<and> (\<forall>k < length commands.
           conn_Write env k (commands ! k) = None \<and> conn_Read env k = (''\<newline>'', None))"

section \<open>The ZooKeeper discovery source: WatcherZookeeper\<close>

text \<open>
  \<open>Watch\<close>, \<open>watchRoot\<close> and \<open>watchNode\<close> run as goroutines that share the report
  map and the stop channel. The model is an interleaving of their steps: a state of
  the watcher, and one transition for each place where a goroutine goes on, namely
  its first statement, a case of a \<open>select\<close> or the answer of a ZooKeeper call. A transition is one
  goroutine running from such a place to the next one. The answers of ZooKeeper and
  the events that arrive are carried by the transition.

  The constants are those of the ZooKeeper client library (\<open>EventType\<close> and \<open>State\<close>
  are 32-bit integers there); the \<open>case\<close> lists of the source join them with Go's
  bitwise \<open>|\<close>, which is \<open>OR\<close> on integers.
\<close>

unbundle bit_operations_syntax

definition EventNodeCreated :: int where "EventNodeCreated = 1"
definition EventNodeDeleted :: int where "EventNodeDeleted = 2"
definition EventNodeDataChanged :: int where "EventNodeDataChanged = 3"
definition EventNodeChildrenChanged :: int where "EventNodeChildrenChanged = 4"
definition EventSession :: int where "EventSession = - 1"
definition EventNotWatching :: int where "EventNotWatching = - 2"

definition StateDisconnected :: int where "StateDisconnected = 0"
definition StateExpired :: int where "StateExpired = - 112"
definition StateHasSession :: int where "StateHasSession = 101"

record zk_Event =
  Type :: int
  State :: int

text \<open>
  The type \<open>reportMap\<close> of the field \<open>reports\<close> is not among the source files, so
  the watcher takes its methods as a parameter: a record of the operations the three
  functions call, over any representation \<open>'r\<close>. \<open>changed\<close> tells whether a receive
  from the channel \<open>reports.changed\<close> can proceed and \<open>receive_changed\<close> is that
  receive; a report is kept as the raw content of its node.
\<close>

record 'r reportMap =
  changed :: "'r \<Rightarrow> bool"
  receive_changed :: "'r \<Rightarrow> 'r"
  getValues :: "'r \<Rightarrow> string list"
  setNoNodes :: "'r \<Rightarrow> 'r"
  removeAll :: "'r \<Rightarrow> 'r"
  get :: "'r \<Rightarrow> string \<Rightarrow> bool"
  addRawReport :: "'r \<Rightarrow> string \<Rightarrow> string \<Rightarrow> 'r"
  removeNode :: "'r \<Rightarrow> string \<Rightarrow> 'r"

text \<open>
  A goroutine started by \<open>go w.watchRoot(stop, doneWaiter)\<close> or
  \<open>go w.watchNode(node, stop, doneWaiter)\<close> is the place where it goes on next,
  together with the stop channel it was given. The places: before its first
  statement \<open>doneWaiter.Add(1)\<close>; before \<open>ExistsW\<close>, in the \<open>select\<close> on
  \<open>existEvent\<close>, before \<open>ChildrenW\<close>, in the \<open>select\<close> on \<open>rootEvents\<close>; before
  \<open>GetW\<close>, in the \<open>select\<close> on \<open>childEvent\<close>. A goroutine is registered with the
  wait group from its \<open>Add(1)\<close> to its return (the deferred \<open>Done()\<close>).

  A channel is a number. \<open>Watch\<close> makes the channel \<open>watcherStop + 1\<close> only after it
  has closed \<open>watcherStop\<close>, so the closed channels are those below \<open>watcherStop\<close>,
  and \<open>watcherStop\<close> itself once it is closed. The counter of the wait group
  \<open>watcherStopWaiter\<close> is the number of registered goroutines; it is zero whenever
  \<open>Watch\<close> replaces the wait group by a new one.
\<close>

datatype task =
    watchRoot_Add
  | watchRoot_ExistsW
  | watchRoot_select_existEvent
  | watchRoot_ChildrenW
  | watchRoot_select_rootEvents
  | watchNode_Add string
  | watchNode_GetW string
  | watchNode_select string

type_synonym goroutine = "task \<times> nat"

datatype Watch_pc = Watch_select | Watch_Wait_expired | Watch_Wait_stop | Watch_returned

record 'r WatcherZookeeper =
  Path :: string
  reports :: 'r
  watcherStop :: nat
  watcherStop_closed :: bool
  goroutines :: "goroutine list"
  Watch_at :: Watch_pc
  events :: "string list list"
  connection_closed :: bool

datatype transition =
    Watch_changed
  | Watch_connectionEvents zk_Event
  | Watch_stop
  | Wait_returns
  | doneWaiter_Add nat
  | ExistsW nat bool
  | existEvent nat
  | ChildrenW nat "string list"
  | rootEvents nat int
  | GetW nat "string option"
  | childEvent nat int
  | stop_closed nat

fun at_select :: "task \<Rightarrow> bool" where
  "at_select watchRoot_select_existEvent = True"
| "at_select watchRoot_select_rootEvents = True"
| "at_select (watchNode_select node) = True"
| "at_select t = False"

fun registered :: "goroutine \<Rightarrow> bool" where
  "registered (watchRoot_Add, c) = False"
| "registered (watchNode_Add node, c) = False"
| "registered (t, c) = True"

definition watcherStopWaiter :: "'r WatcherZookeeper \<Rightarrow> nat" where
  "watcherStopWaiter w = length (filter registered (goroutines w))"

definition closed :: "'r WatcherZookeeper \<Rightarrow> nat \<Rightarrow> bool" where
  "closed w c \<longleftrightarrow> c < watcherStop w \<or> (c = watcherStop w \<and> watcherStop_closed w)"

definition goroutine_at :: "'r WatcherZookeeper \<Rightarrow> nat \<Rightarrow> goroutine option" where
  "goroutine_at w i = (if i < length (goroutines w) then Some (goroutines w ! i) else None)"

definition goes_on :: "nat \<Rightarrow> goroutine \<Rightarrow> 'r WatcherZookeeper \<Rightarrow> 'r WatcherZookeeper" where
  "goes_on i g w = w\<lparr>goroutines := (goroutines w)[i := g]\<rparr>"

definition returns :: "nat \<Rightarrow> 'r WatcherZookeeper \<Rightarrow> 'r WatcherZookeeper" where
  "returns i w = w\<lparr>goroutines := take i (goroutines w) @ drop (Suc i) (goroutines w)\<rparr>"

definition go :: "goroutine list \<Rightarrow> 'r WatcherZookeeper \<Rightarrow> 'r WatcherZookeeper" where
  "go gs w = w\<lparr>goroutines := goroutines w @ gs\<rparr>"

text \<open>
  The transitions, in the order of the source. \<open>Watch\<close>: the three cases of its
  \<open>select\<close>; for a session event with state \<open>StateExpired\<close> or
  \<open>StateDisconnected\<close> it closes \<open>watcherStop\<close> and blocks in
  \<open>watcherStopWaiter.Wait()\<close>; \<open>Wait_returns\<close> is possible when the counter is
  zero, and then \<open>Watch\<close> makes a fresh channel and wait group and goes back to its
  \<open>select\<close> (or, after \<open>stop\<close>, closes the connection and returns).
  \<open>watchRoot\<close> and \<open>watchNode\<close>: the goroutine number \<open>i\<close> goes on;
  \<open>stop_closed i\<close> is its case \<open><-stop\<close>, possible in a \<open>select\<close> once its channel
  is closed. A transition that the state does not allow is \<open>None\<close>.
\<close>

fun step :: "'r reportMap \<Rightarrow> transition \<Rightarrow> 'r WatcherZookeeper \<Rightarrow> 'r WatcherZookeeper option" where
  "step rm Watch_changed w =
     (if Watch_at w = Watch_select \<and> changed rm (reports w) then
        (let r = receive_changed rm (reports w)
         in Some (w\<lparr>reports := r, events := events w @ [getValues rm r]\<rparr>))
      else None)"
| "step rm (Watch_connectionEvents e) w =
     (if Watch_at w = Watch_select then
        (if Type e = (EventSession OR 0) then
           (if State e = StateHasSession then Some (go [(watchRoot_Add, watcherStop w)] w)
            else if State e = StateExpired \<or> State e = StateDisconnected then
              Some (w\<lparr>watcherStop_closed := True, Watch_at := Watch_Wait_expired\<rparr>)
            else Some w)
         else Some w)
      else None)"
| "step rm Watch_stop w =
     (if Watch_at w = Watch_select
      then Some (w\<lparr>watcherStop_closed := True, Watch_at := Watch_Wait_stop\<rparr>)
      else None)"
| "step rm Wait_returns w =
     (if watcherStopWaiter w = 0 then
        (if Watch_at w = Watch_Wait_expired
         then Some (w\<lparr>watcherStop := Suc (watcherStop w), watcherStop_closed := False,
                      Watch_at := Watch_select\<rparr>)
         else if Watch_at w = Watch_Wait_stop
         then Some (w\<lparr>connection_closed := True, Watch_at := Watch_returned\<rparr>)
         else None)
      else None)"
| "step rm (doneWaiter_Add i) w =
     (case goroutine_at w i of
        Some (watchRoot_Add, stop) \<Rightarrow> Some (goes_on i (watchRoot_ExistsW, stop) w)
      | Some (watchNode_Add node, stop) \<Rightarrow> Some (goes_on i (watchNode_GetW node, stop) w)
      | _ \<Rightarrow> None)"
| "step rm (ExistsW i exist) w =
     (case goroutine_at w i of
        Some (watchRoot_ExistsW, stop) \<Rightarrow>
          (if \<not> exist
           then Some (goes_on i (watchRoot_select_existEvent, stop)
                        (w\<lparr>reports := setNoNodes rm (reports w)\<rparr>))
           else Some (goes_on i (watchRoot_ChildrenW, stop) w))
      | _ \<Rightarrow> None)"
| "step rm (existEvent i) w =
     (case goroutine_at w i of
        Some (watchRoot_select_existEvent, stop) \<Rightarrow> Some (goes_on i (watchRoot_ChildrenW, stop) w)
      | _ \<Rightarrow> None)"
| "step rm (ChildrenW i childs) w =
     (case goroutine_at w i of
        Some (watchRoot_ChildrenW, stop) \<Rightarrow>
          (if length childs = 0
           then Some (goes_on i (watchRoot_select_rootEvents, stop)
                        (w\<lparr>reports := setNoNodes rm (reports w)\<rparr>))
           else Some (go (map (\<lambda>child. (watchNode_Add (Path w @ ''/'' @ child), stop))
                            (filter (\<lambda>child. \<not> get rm (reports w) child) childs))
                        (goes_on i (watchRoot_select_rootEvents, stop) w)))
      | _ \<Rightarrow> None)"
| "step rm (rootEvents i eType) w =
     (case goroutine_at w i of
        Some (watchRoot_select_rootEvents, stop) \<Rightarrow>
          (if eType = (EventNodeChildrenChanged OR EventNodeCreated OR EventNodeDataChanged
                         OR EventNotWatching)
           then Some (goes_on i (watchRoot_ExistsW, stop) w)
           else if eType = EventNodeDeleted
           then Some (goes_on i (watchRoot_ExistsW, stop) (w\<lparr>reports := removeAll rm (reports w)\<rparr>))
           else Some (goes_on i (watchRoot_ExistsW, stop) w))
      | _ \<Rightarrow> None)"
| "step rm (GetW i answer) w =
     (case goroutine_at w i of
        Some (watchNode_GetW node, stop) \<Rightarrow>
          (case answer of
             None \<Rightarrow> Some (returns i w)
           | Some content \<Rightarrow>
               Some (goes_on i (watchNode_select node, stop)
                       (w\<lparr>reports := addRawReport rm (reports w) node content\<rparr>)))
      | _ \<Rightarrow> None)"
| "step rm (childEvent i eType) w =
     (case goroutine_at w i of
        Some (watchNode_select node, stop) \<Rightarrow>
          (if eType = (EventNodeDataChanged OR EventNodeCreated OR EventNotWatching)
           then Some (goes_on i (watchNode_GetW node, stop) w)
           else if eType = EventNodeDeleted
           then Some (returns i (w\<lparr>reports := removeNode rm (reports w) node\<rparr>))
           else Some (goes_on i (watchNode_GetW node, stop) w))
      | _ \<Rightarrow> None)"
| "step rm (stop_closed i) w =
     (case goroutine_at w i of
        Some (t, stop) \<Rightarrow> (if closed w stop \<and> at_select t then Some (returns i w) else None)
      | None \<Rightarrow> None)"

fun run :: "'r reportMap \<Rightarrow> transition list \<Rightarrow> 'r WatcherZookeeper \<Rightarrow> 'r WatcherZookeeper option" where
  "run rm [] w = Some w"
| "run rm (s # ss) w = (case step rm s w of None \<Rightarrow> None | Some w' \<Rightarrow> run rm ss w')"



text \<open>
  Modelled from the spec: a report map for the concrete runs below, the type
  \<open>reportMap\<close> being absent from the source files. Following the spec's Discovery
  Source, it is the current set of reports, one for each node (here in the order of
  arrival), together with a change signal that every mutation raises and that the
  receive in \<open>Watch\<close> consumes.
\<close>

record report_set =
  nodes :: "(string \<times> string) list"
  signal :: bool

definition spec_reportMap :: "report_set reportMap" where
  "spec_reportMap =
     \<lparr>changed = signal,
      receive_changed = (\<lambda>r. r\<lparr>signal := False\<rparr>),
      getValues = (\<lambda>r. map snd (nodes r)),
      setNoNodes = (\<lambda>r. \<lparr>nodes = [], signal = True\<rparr>),
      removeAll = (\<lambda>r. \<lparr>nodes = [], signal = True\<rparr>),
      get = (\<lambda>r child. map_of (nodes r) child \<noteq> None),
      addRawReport = (\<lambda>r node content.
         \<lparr>nodes = filter (\<lambda>(n, c). n \<noteq> node) (nodes r) @ [(node, content)], signal = True\<rparr>),
      removeNode = (\<lambda>r node.
         \<lparr>nodes = filter (\<lambda>(n, c). n \<noteq> node) (nodes r), signal = True\<rparr>)\<rparr>"

definition NewWatcherZookeeper :: "string \<Rightarrow> report_set WatcherZookeeper" where
  "NewWatcherZookeeper path =
     \<lparr>Path = path, reports = \<lparr>nodes = [], signal = False\<rparr>, watcherStop = 0,
      watcherStop_closed = False, goroutines = [], Watch_at = Watch_select, events = [],
      connection_closed = False\<rparr>"

section \<open>Concrete inputs\<close>

text \<open>
  One service \<open>web\<close> with the default server \<open>b\<close> and the discovered server
  \<open>a\<close>; every gate of the proxy configuration is open. \<open>example_backend\<close> is the
  backend the Assembler builds from it. \<open>example_HAProxy applied maintenance\<close> is
  the reconciler with the applied snapshot \<open>applied\<close> at a tick where discovery
  reports \<open>a\<close> with the given maintenance flag.
\<close>

definition example_Configuration :: SynapseHAProxyConfiguration where
  "example_Configuration =
     \<lparr>ReloadCommand = \<lparr>Binary = ''/usr/sbin/haproxy'', Arguments = [''haproxy'', ''-sf'']\<rparr>,
      ConfigFilePath = ''/etc/haproxy.cfg'', SocketFilePath = ''/var/run/haproxy.sock'',
      DoWrites = True, DoReloads = True, DoSocket = True,
      Global = [''daemon''], Defaults = [''mode http''], ExtraSections = []\<rparr>"

definition example_service :: "bool \<Rightarrow> int \<Rightarrow> SynapseService" where
  "example_service maintenance weight =
     \<lparr>service_Name = ''web'', HAPPort = 8080, HAPServerOptions = ''check'', HAPListen = [],
      DefaultServers = [\<lparr>conf_Name = ''b'', conf_Host = ''10.0.0.2'', conf_Port = 80\<rparr>],
      Discovery = [\<lparr>host_Name = ''a'', host_Host = ''10.0.0.1'', host_Port = 80,
                    Maintenance = maintenance, host_Weight = weight,
                    host_HAProxyServerOptions = []\<rparr>]\<rparr>"

definition example_backend :: "bool \<Rightarrow> int \<Rightarrow> HAProxyBackend" where
  "example_backend disabled weight =
     \<lparr>backend_Name = ''web'', backend_Port = 8080, ServerOptions = ''check'', Listen = [],
      Servers = [\<lparr>server_Name = ''a'', server_Host = ''10.0.0.1'', server_Port = 80,
                  Disabled = disabled, Weight = weight, HAProxyServerOptions = []\<rparr>,
                 \<lparr>server_Name = ''b'', server_Host = ''10.0.0.2'', server_Port = 80,
                  Disabled = False, Weight = 0, HAProxyServerOptions = []\<rparr>]\<rparr>"

definition example_HAProxy :: "HAProxyBackendSlice \<Rightarrow> bool \<Rightarrow> HAProxy" where
  "example_HAProxy applied maintenance =
     (Initialize example_Configuration [example_service maintenance 10] ''/tmp/state'' 0 zero_HAProxy)
       \<lparr>Backends := applied\<rparr>"



text \<open>
  An operating system where the socket answers every command with \<open>reply\<close> and
  everything else succeeds, but for the file writes, which \<open>writeFile\<close> decides.
\<close>

definition example_env :: "(string \<Rightarrow> string \<Rightarrow> error option) \<Rightarrow> string \<Rightarrow> io_env" where
  "example_env writeFile reply =
     \<lparr>json_Marshal = (\<lambda>backends. (''[...]'', None)), ioutil_WriteFile = writeFile,
      command_Run = (\<lambda>path args. None), net_Dial = (\<lambda>path. None),
      conn_Write = (\<lambda>k command. None), conn_Read = (\<lambda>k. (reply, None))\<rparr>"

definition writes_succeed :: "string \<Rightarrow> string \<Rightarrow> error option" where
  "writes_succeed path data = None"

definition config_write_fails :: "string \<Rightarrow> string \<Rightarrow> error option" where
  "config_write_fails path data = (if path = ''/etc/haproxy.cfg'' then Some ErrWriteFile else None)"

text \<open>A state file last modified at 1000 ms that decodes to one backend, read at \<open>now\<close>.\<close>

definition example_load_env :: "int \<Rightarrow> load_env" where
  "example_load_env now =
     \<lparr>os_Stat = (\<lambda>path. (1000 * Millisecond, None)), time_Now = now,
      ioutil_ReadFile = (\<lambda>path. (''[...]'', None)),
      json_Unmarshal = (\<lambda>file backends. ([example_backend False 10], None))\<rparr>"

text \<open>
  A run of the ZooKeeper watcher on \<open>/services/web\<close>: the session is acquired,
  the root has the child \<open>a\<close>, its report arrives and is sent on; the session
  expires and both goroutines return; the session is acquired again, the root now
  has the only child \<open>b\<close>, its report arrives and is sent on.
  \<open>example_watcher\<close> is the watcher after the first six transitions of that
  run, when the report of \<open>a\<close> has arrived and has not been sent on yet.
\<close>

definition session :: "int \<Rightarrow> zk_Event" where
  "session s = \<lparr>Type = EventSession, State = s\<rparr>"

definition example_run :: "transition list" where
  "example_run =
     [Watch_connectionEvents (session StateHasSession), doneWaiter_Add 0, ExistsW 0 True,
      ChildrenW 0 [''a''], doneWaiter_Add 1, GetW 1 (Some ''report of a''), Watch_changed,
      Watch_connectionEvents (session StateExpired), stop_closed 0, stop_closed 0, Wait_returns,
      Watch_connectionEvents (session StateHasSession), doneWaiter_Add 0, ExistsW 0 True,
      ChildrenW 0 [''b''], doneWaiter_Add 1, GetW 1 (Some ''report of b''), Watch_changed]"

definition example_watcher :: "report_set WatcherZookeeper" where
  "example_watcher =
     \<lparr>Path = ''/services/web'',
      reports = \<lparr>nodes = [(''/services/web/a'', ''report of a'')], signal = True\<rparr>,
      watcherStop = 0, watcherStop_closed = False,
      goroutines = [(watchRoot_select_rootEvents, 0), (watchNode_select ''/services/web/a'', 0)],
      Watch_at = Watch_select, events = [], connection_closed = False\<rparr>"

section \<open>Auxiliary lemmas\<close>

text \<open>
  The loops of the Differ go through the indices of the candidate; where the lengths
  agree this is a walk through the two lists side by side.
\<close>

lemma zip_as_index_map:
  "length ys = length xs \<Longrightarrow> zip xs ys = map (\<lambda>i. (xs ! i, ys ! i)) [0 ..< length xs]"
  by (rule nth_equalityI) simp_all

lemma fold_index_zip:
  assumes "length ys = length xs"
  shows "fold (\<lambda>i. f (xs ! i) (ys ! i)) [0 ..< length xs] acc = fold (\<lambda>(x, y). f x y) (zip xs ys) acc"
proof -
  have "fold (\<lambda>(x, y). f x y) (zip xs ys) acc
        = fold (\<lambda>(x, y). f x y) (map (\<lambda>i. (xs ! i, ys ! i)) [0 ..< length xs]) acc"
    using assms by (simp only: zip_as_index_map)
  also have "\<dots> = fold ((\<lambda>(x, y). f x y) \<circ> (\<lambda>i. (xs ! i, ys ! i))) [0 ..< length xs] acc"
    by (simp only: fold_map)
  also have "(\<lambda>(x, y). f x y) \<circ> (\<lambda>i. (xs ! i, ys ! i)) = (\<lambda>i. f (xs ! i) (ys ! i))"
    by (rule ext) simp
  finally show ?thesis by simp
qed

lemma compare_backend_zip:
  "compare_backend backend applied vars =
     (if length (Servers backend) \<noteq> length (Servers applied)
      then (True, True, snd (snd vars))
      else fold (\<lambda>(server, old). compare_server (backend_Name backend) server old)
             (zip (Servers backend) (Servers applied)) vars)"
proof (cases "length (Servers backend) = length (Servers applied)")
  case True
  then have "length (Servers applied) = length (Servers backend)" by simp
  from fold_index_zip [OF this] True show ?thesis
    unfolding compare_backend_def by simp
next
  case False
  then show ?thesis by (simp add: compare_backend_def)
qed

lemma isBackendsModified_zip:
  "isBackendsModified h newBackends =
     (if length newBackends \<noteq> length (Services h) then
        (False, False, [],
         Some (ErrBackendCount
           (''['' @ Itoa (int (length newBackends)) @ ''] Backends to watch != [''
              @ Itoa (int (length (Services h))) @ ''] Services'')))
      else if length newBackends = length (Backends h) then
        (case fold (\<lambda>(backend, applied). compare_backend backend applied)
                (zip newBackends (Backends h)) (False, False, [])
         of (isModified, hasToRestart, socketCommands) \<Rightarrow>
              (isModified, hasToRestart, socketCommands, None))
      else (True, True, [], None))"
proof (cases "length newBackends = length (Backends h)")
  case True
  then have "length (Backends h) = length newBackends" by simp
  then have "fold (\<lambda>index. compare_backend (newBackends ! index) (Backends h ! index))
               [0 ..< length newBackends] (False, False, [])
             = fold (\<lambda>(backend, applied). compare_backend backend applied)
                 (zip newBackends (Backends h)) (False, False, [])"
    by (rule fold_index_zip)
  then show ?thesis
    unfolding isBackendsModified_def by (simp only:)
next
  case False
  then show ?thesis by (simp add: isBackendsModified_def)
qed

lemma compare_server_same: "compare_server n s s vars = vars"
  by (cases vars) (simp add: compare_server_def)

lemma fold_compare_server_same:
  "fold (\<lambda>(server, old). compare_server n server old) (zip ss ss) vars = vars"
  by (induction ss arbitrary: vars) (simp_all add: compare_server_same)

lemma compare_backend_same: "compare_backend b b vars = vars"
  by (simp add: compare_backend_zip fold_compare_server_same)

lemma fold_compare_backend_same:
  "fold (\<lambda>(backend, applied). compare_backend backend applied) (zip B B) vars = vars"
  by (induction B arbitrary: vars) (simp_all add: compare_backend_same)

lemma isBackendsModified_same:
  "length (Backends h) = length (Services h) \<Longrightarrow>
   isBackendsModified h (Backends h) = (False, False, [], None)"
  by (simp add: isBackendsModified_zip fold_compare_backend_same)

lemma length_getAllBackends: "length (getAllBackends h) = length (Services h)"
  by (simp add: getAllBackends_def sort_Backends_def)

text \<open>
  Where the servers agree on (name, host, port), the Differ never asks for a restart
  and collects exactly the commands of the spec.
\<close>

lemma compare_server_flags:
  "server_key server = server_key old \<Longrightarrow>
   compare_server n server old (m, r, c) =
     (if Disabled server \<noteq> Disabled old then (True, r, c @ [spec_command n server]) else (m, r, c))"
  by (simp add: compare_server_def server_key_def spec_command_def)

lemma fold_compare_server_flags:
  "list_all2 (\<lambda>server s. server_key server = server_key s) ss ts \<Longrightarrow>
   fold (\<lambda>(server, old). compare_server n server old) (zip ss ts) (m, r, c) =
     (m \<or> filter (\<lambda>(server, old). Disabled server \<noteq> Disabled old) (zip ss ts) \<noteq> [], r,
      c @ map (spec_command n) (map fst (filter (\<lambda>(server, old). Disabled server \<noteq> Disabled old) (zip ss ts))))"
proof (induction ss ts arbitrary: m c rule: list_all2_induct)
  case Nil
  show ?case by simp
next
  case (Cons server ss old ts)
  show ?case
    by (cases "Disabled server = Disabled old")
       (simp_all add: compare_server_flags [OF Cons.hyps(1)] Cons.IH)
qed

lemma compare_backend_flags:
  assumes "list_all2 (\<lambda>server s. server_key server = server_key s) (Servers backend) (Servers old)"
  shows "compare_backend backend old (m, r, c) =
           (m \<or> changed_servers backend old \<noteq> [], r,
            c @ map (spec_command (backend_Name backend)) (changed_servers backend old))"
proof -
  from assms have "length (Servers backend) = length (Servers old)"
    by (rule list_all2_lengthD)
  then show ?thesis
    by (simp add: compare_backend_zip fold_compare_server_flags [OF assms] changed_servers_def)
qed

lemma fold_compare_backend_flags:
  "list_all2 (\<lambda>backend old. list_all2 (\<lambda>server s. server_key server = server_key s)
                               (Servers backend) (Servers old)) B A \<Longrightarrow>
   fold (\<lambda>(backend, applied). compare_backend backend applied) (zip B A) (m, r, c) =
     (m \<or> spec_commands B A \<noteq> [], r, c @ spec_commands B A)"
proof (induction B A arbitrary: m c rule: list_all2_induct)
  case Nil
  show ?case by (simp add: spec_commands_def)
next
  case (Cons backend B old A)
  show ?case
    by (simp add: compare_backend_flags [OF Cons.hyps(1)] Cons.IH spec_commands_def)
qed

lemma isBackendsModified_flags:
  assumes "length B = length (Services h)" and "same_servers B (Backends h)"
  shows "isBackendsModified h B =
           (spec_commands B (Backends h) \<noteq> [], False, spec_commands B (Backends h), None)"
proof -
  from assms(2) have len: "length B = length (Backends h)"
    unfolding same_servers_def by (rule list_all2_lengthD)
  from assms(2) have
    "fold (\<lambda>(backend, applied). compare_backend backend applied) (zip B (Backends h)) (False, False, [])
       = (False \<or> spec_commands B (Backends h) \<noteq> [], False, [] @ spec_commands B (Backends h))"
    unfolding same_servers_def by (rule fold_compare_backend_flags)
  with assms(1) len show ?thesis
    by (simp add: isBackendsModified_zip)
qed

lemma concat_map_nonempty: "concat (map f xs) \<noteq> [] \<longleftrightarrow> list_ex (\<lambda>x. f x \<noteq> []) xs"
  by (induction xs) simp_all

lemma map_filter_nonempty: "map g (filter P xs) \<noteq> [] \<longleftrightarrow> list_ex P xs"
  by (induction xs) simp_all

lemma changed_servers_nonempty:
  "map (spec_command n) (changed_servers backend old) \<noteq> [] \<longleftrightarrow>
   list_ex (\<lambda>(server, s). Disabled server \<noteq> Disabled s) (zip (Servers backend) (Servers old))"
  unfolding changed_servers_def by (simp only: map_map map_filter_nonempty)

lemma flags_differ_commands:
  "flags_differ B A \<longleftrightarrow> spec_commands B A \<noteq> []"
proof -
  have "(\<lambda>x. (case x of (backend, old) \<Rightarrow>
                 map (spec_command (backend_Name backend)) (changed_servers backend old)) \<noteq> [])
        = (\<lambda>(backend, old). list_ex (\<lambda>(server, s). Disabled server \<noteq> Disabled s)
                                (zip (Servers backend) (Servers old)))"
    by (rule ext) (simp only: split_beta changed_servers_nonempty)
  then show ?thesis
    unfolding flags_differ_def spec_commands_def concat_map_nonempty by simp
qed


lemma SaveState_no_reload: "filter is_reload (snd (SaveState env h)) = []"
  by (simp add: SaveState_def split: prod.splits)

lemma SaveConfiguration_no_reload: "filter is_reload (snd (SaveConfiguration env h)) = []"
  by (simp add: SaveConfiguration_def Let_def)

lemma send_commands_succeeds:
  "(\<forall>k < length commands.
      conn_Write env (k0 + k) (commands ! k) = None \<and> conn_Read env (k0 + k) = (''\<newline>'', None)) \<Longrightarrow>
   send_commands env k0 commands =
     (None, concat (map (\<lambda>command. [ConnWrite command, ConnRead]) commands) @ [ConnClose])"
proof (induction commands arbitrary: k0)
  case Nil
  show ?case by simp
next
  case (Cons command commands)
  from Cons.prems have first:
    "conn_Write env k0 command = None" "conn_Read env k0 = (''\<newline>'', None)"
    by force+
  have "\<forall>k < length commands.
          conn_Write env (Suc k0 + k) (commands ! k) = None
          \<and> conn_Read env (Suc k0 + k) = (''\<newline>'', None)"
  proof (intro allI impI)
    fix k assume "k < length commands"
    then have "Suc k < length (command # commands)" by simp
    with Cons.prems have
      "conn_Write env (k0 + Suc k) ((command # commands) ! Suc k) = None
       \<and> conn_Read env (k0 + Suc k) = (''\<newline>'', None)"
      by blast
    then show "conn_Write env (Suc k0 + k) (commands ! k) = None
               \<and> conn_Read env (Suc k0 + k) = (''\<newline>'', None)"
      by simp
  qed
  from Cons.IH [OF this] first show ?case by simp
qed

lemma changeBackendsStateBySocket_succeeds:
  assumes "DoSocket (Configuration h)" and "socket_pass_succeeds env h commands"
  shows "changeBackendsStateBySocket env h commands =
           (None, Dial (SocketFilePath (Configuration h))
                    # concat (map (\<lambda>command. [ConnWrite command, ConnRead]) commands) @ [ConnClose])"
proof -
  from assms(2) have dial: "net_Dial env (SocketFilePath (Configuration h)) = None"
    and "\<forall>k < length commands.
           conn_Write env (0 + k) (commands ! k) = None \<and> conn_Read env (0 + k) = (''\<newline>'', None)"
    by (simp_all add: socket_pass_succeeds_def)
  from send_commands_succeeds [OF this(2)] dial assms(1) show ?thesis
    by (simp add: changeBackendsStateBySocket_def)
qed

text \<open>
  A reply that is read without error but is not a lone newline ends the socket pass
  with the \<open>nil\<close> error, at any position and for every command.
\<close>

lemma send_commands_unknown_reply:
  assumes "conn_Write env k command = None"
      and "conn_Read env k = (return_string, None)"
      and "return_string \<noteq> ''\<newline>''"
  shows "send_commands env k (command # commands) = (None, [ConnWrite command, ConnRead, ConnClose])"
  using assms by simp

lemma no_reload_in_exchanges:
  "filter is_reload (concat (map (\<lambda>command. [ConnWrite command, ConnRead]) commands)) = []"
  by (induction commands) simp_all

lemma Run_iteration_socket_no_reload:
  assumes differ: "isBackendsModified h backends = (True, False, commands, None)"
      and socket: "DoSocket (Configuration h)"
      and pass: "socket_pass_succeeds env h commands"
  shows "filter is_reload (snd (Run_iteration h backends env)) = []"
proof -
  let ?h = "h\<lparr>Backends := backends\<rparr>"
  have conf: "Configuration ?h = Configuration h" by simp
  from pass have "socket_pass_succeeds env ?h commands"
    by (simp add: socket_pass_succeeds_def)
  with socket have sent: "changeBackendsStateBySocket env ?h commands =
      (None, Dial (SocketFilePath (Configuration h))
               # concat (map (\<lambda>command. [ConnWrite command, ConnRead]) commands) @ [ConnClose])"
    using changeBackendsStateBySocket_succeeds [of ?h env commands] by simp
  obtain err written where written: "SaveConfiguration env ?h = (err, written)"
    by (cases "SaveConfiguration env ?h")
  with SaveConfiguration_no_reload [of env ?h] have nw: "filter is_reload written = []"
    by simp
  show ?thesis
    using differ socket sent written nw SaveState_no_reload [of env ?h]
    by (simp add: Run_iteration_def Let_def no_reload_in_exchanges)
qed

text \<open>
  The candidate does not depend on the order in which a source lists its hosts, as
  long as the keys of the servers of a backend are distinct: there is then only one
  sorted arrangement.
\<close>

lemma filter_key_distinct:
  "distinct (map f xs) \<Longrightarrow> k \<in> set xs \<Longrightarrow> filter (\<lambda>x. f k = f x) xs = [k]"
proof (induction xs)
  case Nil
  then show ?case by simp
next
  case (Cons x xs)
  show ?case
  proof (cases "k = x")
    case True
    with Cons.prems(1) have "filter (\<lambda>y. f k = f y) xs = []"
      by (auto simp: filter_empty_conv)
    with True show ?thesis by simp
  next
    case False
    with Cons.prems have kxs: "k \<in> set xs" by simp
    from Cons.prems(1) have "f x \<notin> set (map f xs)" by simp
    moreover from kxs have "f k \<in> set (map f xs)" by simp
    ultimately have "f k \<noteq> f x" by metis
    with Cons kxs show ?thesis by simp
  qed
qed




text \<open>
  With distinct keys a list has one sorted permutation only, so every sorting
  procedure, \<open>sort.Sort\<close> among them, returns what \<^const>\<open>sort_key\<close> returns.
\<close>

lemma sorted_permutation_unique:
  assumes "mset ys = mset xs" and "sorted (map f ys)" and "distinct (map f xs)"
  shows "sort_key f xs = ys"
proof (rule properties_for_sort_key [OF assms(1) _ assms(2)])
  fix k assume k: "k \<in> set ys"
  from assms(1) have "mset (map f ys) = mset (map f xs)" by simp
  with assms(3) have d: "distinct (map f ys)"
    by (metis mset_eq_imp_distinct_iff)
  from k assms(1) have kx: "k \<in> set xs"
    by (metis mset_eq_setD)
  from filter_key_distinct [OF d k] filter_key_distinct [OF assms(3) kx]
  show "filter (\<lambda>x. f k = f x) ys = filter (\<lambda>x. f k = f x) xs"
    by simp
qed

text \<open>
  Candidate and config-file text are functions of the services and the proxy
  configuration: the applied snapshot, the state file and the interval play no part.
\<close>

lemma same_services_same_configuration:
  assumes "Services h1 = Services h2" and "Configuration h1 = Configuration h2"
  shows "configuration_data (h1\<lparr>Backends := getAllBackends h1\<rparr>)
           = configuration_data (h2\<lparr>Backends := getAllBackends h2\<rparr>)"
  using assms by (simp add: getAllBackends_def configuration_data_def)

text \<open>What a tick leaves behind, and the tick after it.\<close>

lemma getAllBackends_Backends_update:
  "getAllBackends (h\<lparr>Backends := backends\<rparr>) = getAllBackends h"
  by (simp add: getAllBackends_def)

lemma Run_tick_unchanged:
  assumes "getAllBackends h = Backends h"
  shows "Run_tick h env = (h, [])"
proof -
  have "length (Backends h) = length (Services h)"
    using length_getAllBackends [of h] assms by simp
  then have "isBackendsModified h (Backends h) = (False, False, [], None)"
    by (rule isBackendsModified_same)
  with assms show ?thesis
    by (simp add: Run_tick_def Run_iteration_def)
qed

lemma Run_iteration_state:
  "fst (Run_iteration h backends env) =
     (if snd (snd (snd (isBackendsModified h backends))) = None \<and> fst (isBackendsModified h backends)
      then h\<lparr>Backends := backends\<rparr> else h)"
proof -
  obtain m r c e where res: "isBackendsModified h backends = (m, r, c, e)"
    by (cases "isBackendsModified h backends")
  obtain err written where w: "SaveConfiguration env (h\<lparr>Backends := backends\<rparr>) = (err, written)"
    by (cases "SaveConfiguration env (h\<lparr>Backends := backends\<rparr>)")
  obtain serr sent where s: "changeBackendsStateBySocket env (h\<lparr>Backends := backends\<rparr>) c = (serr, sent)"
    by (cases "changeBackendsStateBySocket env (h\<lparr>Backends := backends\<rparr>) c")
  from res w s show ?thesis
    by (simp add: Run_iteration_def Let_def)
qed

lemma isBackendsModified_no_error:
  "snd (snd (snd (isBackendsModified h (getAllBackends h)))) = None"
  by (simp add: length_getAllBackends isBackendsModified_def split: prod.splits)

lemma Run_tick_twice:
  "Run_tick (fst (Run_tick h env)) env' = (fst (Run_tick h env), [])
   \<and> classify (isBackendsModified (fst (Run_tick h env)) (getAllBackends (fst (Run_tick h env))))
       = Some NoChange"
proof (cases "fst (isBackendsModified h (getAllBackends h))")
  case True
  let ?h = "h\<lparr>Backends := getAllBackends h\<rparr>"
  from True have h': "fst (Run_tick h env) = ?h"
    by (simp add: Run_tick_def Run_iteration_state isBackendsModified_no_error)
  have same: "getAllBackends ?h = Backends ?h"
    by (simp add: getAllBackends_Backends_update)
  then have "length (Backends ?h) = length (Services ?h)"
    using length_getAllBackends [of ?h] by simp
  then have "isBackendsModified ?h (Backends ?h) = (False, False, [], None)"
    by (rule isBackendsModified_same)
  with same have "classify (isBackendsModified ?h (getAllBackends ?h)) = Some NoChange"
    by (simp add: classify_def)
  with Run_tick_unchanged [OF same, of env'] h' show ?thesis by simp
next
  case False
  then have h': "fst (Run_tick h env) = h"
    by (simp add: Run_tick_def Run_iteration_state)
  obtain m r c e where res: "isBackendsModified h (getAllBackends h) = (m, r, c, e)"
    by (cases "isBackendsModified h (getAllBackends h)")
  with False isBackendsModified_no_error [of h] have "\<not> m" "e = None" by simp_all
  with res h' show ?thesis
    by (simp add: Run_tick_def Run_iteration_def classify_def)
qed

text \<open>Neither the Differ nor the serialization reads a weight.\<close>

lemma compare_server_Weight:
  "compare_server n (server\<lparr>Weight := w\<rparr>) old vars = compare_server n server old vars"
  by (cases vars) (simp add: compare_server_def)

lemma fold_compare_server_Weight:
  "fold (\<lambda>(server, old). compare_server n server old)
        (zip (map (\<lambda>server. server\<lparr>Weight := w\<rparr>) ss) ts) vars
   = fold (\<lambda>(server, old). compare_server n server old) (zip ss ts) vars"
proof (induction ss arbitrary: ts vars)
  case Nil
  show ?case by simp
next
  case (Cons server ss)
  show ?case by (cases ts) (simp_all add: compare_server_Weight Cons.IH)
qed

lemma compare_backend_Weight:
  "compare_backend (backend\<lparr>Servers := map (\<lambda>server. server\<lparr>Weight := w\<rparr>) (Servers backend)\<rparr>) old vars
   = compare_backend backend old vars"
  by (simp add: compare_backend_zip fold_compare_server_Weight)

lemma fold_compare_backend_Weight:
  "fold (\<lambda>(backend, applied). compare_backend backend applied) (zip (without_Weight B) A) vars
   = fold (\<lambda>(backend, applied). compare_backend backend applied) (zip B A) vars"
proof (induction B arbitrary: A vars)
  case Nil
  show ?case by (simp add: without_Weight_def)
next
  case (Cons backend B)
  show ?case
  proof (cases A)
    case Nil
    then show ?thesis by simp
  next
    case (Cons old A')
    with Cons.IH [of A'] show ?thesis
      by (simp add: without_Weight_def compare_backend_Weight)
  qed
qed

lemma isBackendsModified_without_Weight:
  "isBackendsModified h (without_Weight B) = isBackendsModified h B"
proof -
  have "length (without_Weight B) = length B" by (simp add: without_Weight_def)
  then show ?thesis
    by (simp add: isBackendsModified_zip fold_compare_backend_Weight)
qed

lemma add_server_Weight:
  "add_server (backend\<lparr>Servers := ss\<rparr>) data (server\<lparr>Weight := w\<rparr>) = add_server backend data server"
  by (simp add: add_server_def Let_def)

lemma foldl_add_server_Weight:
  "foldl (add_server (backend\<lparr>Servers := ss'\<rparr>)) data (map (\<lambda>server. server\<lparr>Weight := w\<rparr>) ss)
   = foldl (add_server backend) data ss"
  by (induction ss arbitrary: data) (simp_all add: add_server_Weight)

lemma add_backend_Weight:
  "add_backend data (backend\<lparr>Servers := map (\<lambda>server. server\<lparr>Weight := w\<rparr>) (Servers backend)\<rparr>)
   = add_backend data backend"
  by (simp add: add_backend_def foldl_add_server_Weight)

lemma foldl_add_backend_Weight:
  "foldl add_backend data (without_Weight B) = foldl add_backend data B"
proof (induction B arbitrary: data)
  case Nil
  show ?case by (simp add: without_Weight_def)
next
  case (Cons backend B)
  from Cons.IH show ?case
    by (simp add: without_Weight_def add_backend_Weight)
qed

lemma configuration_data_without_Weight:
  "configuration_data (h\<lparr>Backends := without_Weight B\<rparr>) = configuration_data (h\<lparr>Backends := B\<rparr>)"
  by (simp add: configuration_data_def foldl_add_backend_Weight)

text \<open>The two ways \<open>LoadState\<close> treats an existing state file.\<close>

lemma LoadState_expired:
  assumes "os_Stat env (StateFile h) = (fileModTime, None)"
      and "time_Now env - fileModTime > 2000 * Millisecond"
  shows "LoadState env h = (h, None)"
  using assms by (simp add: LoadState_def Let_def)

lemma LoadState_adopts_only_fresh:
  assumes "Backends (fst (LoadState env h)) \<noteq> Backends h"
  shows "snd (os_Stat env (StateFile h)) = None
         \<and> time_Now env - fst (os_Stat env (StateFile h)) \<le> 2000 * Millisecond"
  using assms by (auto simp: LoadState_def Let_def split: prod.splits if_splits)







text \<open>The concrete run reaches \<open>example_watcher\<close>.\<close>

lemma example_watcher_reached:
  "run spec_reportMap (take 6 example_run) (NewWatcherZookeeper ''/services/web'') = Some example_watcher"
  by (simp add: example_run_def NewWatcherZookeeper_def spec_reportMap_def session_def
      goroutine_at_def goes_on_def returns_def go_def example_watcher_def
      EventSession_def StateHasSession_def StateExpired_def StateDisconnected_def)

text \<open>
  A goroutine that has been started but has not yet called \<open>Add(1)\<close> is not waited
  for: here the session expires right after it was acquired, \<open>Wait()\<close> returns at
  once, and the goroutine of \<open>watchRoot\<close>, with its closed channel, is still there
  when \<open>Watch\<close> is back in its \<open>select\<close>.
\<close>

lemma goroutine_outlives_Wait:
  "run spec_reportMap
     [Watch_connectionEvents (session StateHasSession),
      Watch_connectionEvents (session StateExpired), Wait_returns]
     (NewWatcherZookeeper ''/services/web'')
   = Some ((NewWatcherZookeeper ''/services/web'')
             \<lparr>watcherStop := 1, goroutines := [(watchRoot_Add, 0)]\<rparr>)"
  by (simp add: NewWatcherZookeeper_def session_def go_def watcherStopWaiter_def
      EventSession_def StateHasSession_def StateExpired_def StateDisconnected_def)

text \<open>The concrete inputs, evaluated.\<close>

lemma example_sort_Servers: "sort_Servers (map default_hapServer (DefaultServers (example_service m w))
                              @ map discovered_hapServer (Discovery (example_service m w)))
   = Servers (example_backend m w)"
  by (simp add: sort_Servers_def example_service_def example_backend_def default_hapServer_def discovered_hapServer_def server_key_def)

lemma getAllBackends_example:
  "getAllBackends (example_HAProxy applied m) = [example_backend m 10]"
  by (simp add: getAllBackends_def sort_Backends_def service_backend_def example_sort_Servers example_HAProxy_def Initialize_def)
     (simp add: example_backend_def example_service_def)

lemma example_HAProxy_simps:
  "Backends (example_HAProxy applied m) = applied"
  "Services (example_HAProxy applied m) = [example_service m 10]"
  "Configuration (example_HAProxy applied m) = example_Configuration"
  "StateFile (example_HAProxy applied m) = ''/tmp/state''"
  by (simp_all add: example_HAProxy_def Initialize_def)

lemma example_spec_commands:
  "spec_commands [example_backend True 10] [example_backend False 10] = [''disable server web/a'']"
  by (simp add: spec_commands_def changed_servers_def spec_command_def example_backend_def)

lemma example_same_servers:
  "same_servers [example_backend d w] [example_backend d' w']"
  by (simp add: same_servers_def example_backend_def server_key_def)

lemma example_flags_differ:
  "flags_differ [example_backend True 10] [example_backend False 10]"
  by (simp add: flags_differ_def example_backend_def)

lemma example_socket_pass:
  "socket_pass_succeeds (example_env writes_succeed ''\<newline>'') h commands"
  by (simp add: socket_pass_succeeds_def example_env_def)

lemma example_first_diff:
  "isBackendsModified (example_HAProxy [] m) [example_backend m 10] = (True, True, [], None)"
  by (simp add: isBackendsModified_def example_HAProxy_simps)

lemma example_flag_diff:
  "isBackendsModified (example_HAProxy [example_backend False 10] True) [example_backend True 10]
     = (True, False, [''disable server web/a''], None)"
  using isBackendsModified_flags [of "[example_backend True 10]"
          "example_HAProxy [example_backend False 10] True"]
  by (simp add: example_HAProxy_simps example_same_servers example_spec_commands)








section \<open>The claims\<close>

text \<open>
  Claim C1. For every EnableDisableOnly tick with \<open>do_socket\<close> enabled, if an
  admin-socket command receives a response other than a lone newline, the socket pass
  is a failure and a full reload is invoked within the same tick.

  The code does not do this. The candidate differs from the applied snapshot in the
  \<open>disabled\<close> flag of server \<open>a\<close> only, every gate is open, and the socket answers
  \<open>Unknown command\<close>: \<open>changeBackendsStateBySocket\<close> closes the connection and
  returns \<open>err\<close>, which is \<open>nil\<close> after the successful \<open>Read\<close>, so \<open>Run\<close> sees no
  error and the tick ends without any \<open>Exec\<close> of the reload command.
\<close>

theorem socket_failure_without_reload:
  "classify (isBackendsModified (example_HAProxy [example_backend False 10] True)
               (getAllBackends (example_HAProxy [example_backend False 10] True)))
     = Some (EnableDisableOnly [''disable server web/a''])
   \<and> DoSocket (Configuration (example_HAProxy [example_backend False 10] True))
   \<and> DoReloads (Configuration (example_HAProxy [example_backend False 10] True))
   \<and> conn_Read (example_env writes_succeed ''Unknown command\<newline>'') 0
       = (''Unknown command\<newline>'', None)
   \<and> changeBackendsStateBySocket (example_env writes_succeed ''Unknown command\<newline>'')
        ((example_HAProxy [example_backend False 10] True)\<lparr>Backends := [example_backend True 10]\<rparr>)
        [''disable server web/a'']
       = (None, [Dial ''/var/run/haproxy.sock'', ConnWrite ''disable server web/a'', ConnRead, ConnClose])
   \<and> snd (Run_tick (example_HAProxy [example_backend False 10] True)
             (example_env writes_succeed ''Unknown command\<newline>''))
       = [WriteFile ''/tmp/state'' ''[...]'',
          WriteFile ''/etc/haproxy.cfg''
            (configuration_data ((example_HAProxy [example_backend False 10] True)\<lparr>Backends := [example_backend True 10]\<rparr>)),
          Dial ''/var/run/haproxy.sock'', ConnWrite ''disable server web/a'', ConnRead, ConnClose]"
proof -
  let ?h = "example_HAProxy [example_backend False 10] True"
  let ?h' = "?h\<lparr>Backends := [example_backend True 10]\<rparr>"
  let ?env = "example_env writes_succeed ''Unknown command\<newline>''"
  have cand: "getAllBackends ?h = [example_backend True 10]"
    by (rule getAllBackends_example)
  have "classify (isBackendsModified ?h (getAllBackends ?h))
          = Some (EnableDisableOnly [''disable server web/a''])"
    by (simp add: cand example_flag_diff classify_def)
  moreover have "DoSocket (Configuration ?h)" "DoReloads (Configuration ?h)"
    by (simp_all add: example_HAProxy_simps example_Configuration_def)
  moreover have "conn_Read ?env 0 = (''Unknown command\<newline>'', None)"
    by (simp add: example_env_def)
  moreover have sock: "changeBackendsStateBySocket ?env ?h' [''disable server web/a'']
      = (None, [Dial ''/var/run/haproxy.sock'', ConnWrite ''disable server web/a'', ConnRead, ConnClose])"
    by (simp add: changeBackendsStateBySocket_def example_HAProxy_simps example_Configuration_def
          example_env_def)
  moreover have "SaveState ?env ?h' = (None, [WriteFile ''/tmp/state'' ''[...]''])"
    by (simp add: SaveState_def example_env_def writes_succeed_def example_HAProxy_simps)
  moreover have "SaveConfiguration ?env ?h'
      = (None, [WriteFile ''/etc/haproxy.cfg'' (configuration_data ?h')])"
    by (simp add: SaveConfiguration_def Let_def example_HAProxy_simps example_Configuration_def
          example_env_def writes_succeed_def)
  ultimately show ?thesis
    by (simp add: Run_tick_def Run_iteration_def cand example_flag_diff Let_def example_HAProxy_simps)
qed

text \<open>
  Claim C2, as stated: for a tick whose diff is Structural or EnableDisableOnly, if the
  config-file write or the reload fails, the applied snapshot is not updated, and the
  state file is written only after a successful Effector pass.

  It fails on the first tick of the example when the write of the config file fails:
  the diff is Structural, \<open>SaveConfiguration\<close> returns the error, and yet the
  applied snapshot has become the candidate and the state file was written, before
  the config file was tried. The next tick finds nothing to do and retries nothing.
\<close>

theorem failed_write_still_updates_snapshot:
  "classify (isBackendsModified (example_HAProxy [] False) (getAllBackends (example_HAProxy [] False)))
     = Some Structural
   \<and> fst (SaveConfiguration (example_env config_write_fails ''\<newline>'')
            ((example_HAProxy [] False)\<lparr>Backends := getAllBackends (example_HAProxy [] False)\<rparr>))
       = Some ErrWriteFile
   \<and> Backends (example_HAProxy [] False) = []
   \<and> Run_tick (example_HAProxy [] False) (example_env config_write_fails ''\<newline>'')
       = ((example_HAProxy [] False)\<lparr>Backends := [example_backend False 10]\<rparr>,
          [WriteFile ''/tmp/state'' ''[...]'',
           WriteFile ''/etc/haproxy.cfg''
             (configuration_data ((example_HAProxy [] False)\<lparr>Backends := [example_backend False 10]\<rparr>))])
   \<and> Run_tick ((example_HAProxy [] False)\<lparr>Backends := [example_backend False 10]\<rparr>)
         (example_env writes_succeed ''\<newline>'')
       = ((example_HAProxy [] False)\<lparr>Backends := [example_backend False 10]\<rparr>, [])"
proof -
  let ?h = "example_HAProxy [] False"
  let ?h' = "?h\<lparr>Backends := [example_backend False 10]\<rparr>"
  let ?env = "example_env config_write_fails ''\<newline>''"
  have cand: "getAllBackends ?h = [example_backend False 10]"
    by (rule getAllBackends_example)
  have "classify (isBackendsModified ?h (getAllBackends ?h)) = Some Structural"
    by (simp add: cand example_first_diff classify_def)
  moreover have save: "SaveConfiguration ?env ?h'
      = (Some ErrWriteFile, [WriteFile ''/etc/haproxy.cfg'' (configuration_data ?h')])"
    by (simp add: SaveConfiguration_def Let_def example_HAProxy_simps example_Configuration_def
          example_env_def config_write_fails_def)
  moreover have "Backends ?h = []"
    by (simp add: example_HAProxy_simps)
  moreover have "SaveState ?env ?h' = (None, [WriteFile ''/tmp/state'' ''[...]''])"
    by (simp add: SaveState_def example_env_def config_write_fails_def example_HAProxy_simps)
  then have "Run_tick ?h ?env
      = (?h', [WriteFile ''/tmp/state'' ''[...]'',
               WriteFile ''/etc/haproxy.cfg'' (configuration_data ?h')])"
    using save
    by (simp add: Run_tick_def Run_iteration_def cand example_first_diff Let_def example_HAProxy_simps)
  moreover have "Run_tick ?h' (example_env writes_succeed ''\<newline>'') = (?h', [])"
    by (rule Run_tick_unchanged) (simp add: getAllBackends_Backends_update cand)
  ultimately show ?thesis by (simp add: cand)
qed

text \<open>
  Claim C2, amended to what \<open>Run\<close> does: for every tick whose diff is Structural or
  EnableDisableOnly, the applied snapshot is set to the candidate, whatever the
  config-file write, the socket and the reload do afterwards; and when a state file
  is configured and the snapshot can be marshalled, the write of the state file is
  the first I/O call of the tick, before the Effector acts.
\<close>

theorem applied_snapshot_updated_first:
  assumes "classify (isBackendsModified h backends) = Some d" and "d \<noteq> NoChange"
  shows "Backends (fst (Run_iteration h backends env)) = backends
         \<and> (StateFile h \<noteq> [] \<and> json_Marshal env backends = (data, None)
              \<longrightarrow> take 1 (snd (Run_iteration h backends env)) = [WriteFile (StateFile h) data])"
proof -
  obtain m r c e where res: "isBackendsModified h backends = (m, r, c, e)"
    by (cases "isBackendsModified h backends")
  with assms have "e = None" "m"
    by (auto simp: classify_def split: if_splits)
  with res have res': "isBackendsModified h backends = (True, r, c, None)" by simp
  let ?h = "h\<lparr>Backends := backends\<rparr>"
  obtain err written where w: "SaveConfiguration env ?h = (err, written)"
    by (cases "SaveConfiguration env ?h")
  obtain serr sent where s: "changeBackendsStateBySocket env ?h c = (serr, sent)"
    by (cases "changeBackendsStateBySocket env ?h c")
  have "Backends (fst (Run_iteration h backends env)) = backends"
    using res' w s by (simp add: Run_iteration_def Let_def)
  moreover have "take 1 (snd (Run_iteration h backends env)) = [WriteFile (StateFile h) data]"
    if "StateFile h \<noteq> []" and "json_Marshal env backends = (data, None)"
  proof -
    from that have "snd (SaveState env ?h) = [WriteFile (StateFile h) data]"
      by (simp add: SaveState_def)
    with that(1) res' w s show ?thesis
      by (simp add: Run_iteration_def Let_def)
  qed
  ultimately show ?thesis by blast
qed

theorem applied_snapshot_updated_first_witness:
  "classify (isBackendsModified (example_HAProxy [] False) [example_backend False 10]) = Some Structural
   \<and> Structural \<noteq> NoChange
   \<and> StateFile (example_HAProxy [] False) \<noteq> []
   \<and> json_Marshal (example_env config_write_fails ''\<newline>'') [example_backend False 10] = (''[...]'', None)
   \<and> Backends (fst (Run_iteration (example_HAProxy [] False) [example_backend False 10]
                       (example_env config_write_fails ''\<newline>''))) = [example_backend False 10]
   \<and> take 1 (snd (Run_iteration (example_HAProxy [] False) [example_backend False 10]
                      (example_env config_write_fails ''\<newline>'')))
       = [WriteFile ''/tmp/state'' ''[...]'']"
proof -
  have c: "classify (isBackendsModified (example_HAProxy [] False) [example_backend False 10]) = Some Structural"
    by (simp add: example_first_diff classify_def)
  have d: "Structural \<noteq> NoChange" by simp
  have s: "StateFile (example_HAProxy [] False) \<noteq> []"
    by (simp add: example_HAProxy_simps)
  have m: "json_Marshal (example_env config_write_fails ''\<newline>'') [example_backend False 10] = (''[...]'', None)"
    by (simp add: example_env_def)
  from applied_snapshot_updated_first [OF c d, of "example_env config_write_fails ''\<newline>''" "''[...]''"]
    c d s m
  show ?thesis by (simp add: example_HAProxy_simps)
qed




text \<open>
  Claim C4. Let the candidate of a tick have as many backends as the applied snapshot
  and, in each backend, the same servers in the same order by (name, host, port), and
  let some \<open>disabled\<close> flag differ. Then the Differ classifies the delta as
  EnableDisableOnly, and its commands are, in order, one for each server whose flag
  differs: \<open>disable server <backend>/<server>\<close> when the candidate's server is
  disabled and \<open>enable server <backend>/<server>\<close> when it is not (this is
  \<open>spec_commands\<close>). When \<open>do_socket\<close> is enabled and the socket pass succeeds,
  the tick performs no reload.
\<close>

theorem enable_disable_only:
  assumes same: "same_servers (getAllBackends h) (Backends h)"
      and differ: "flags_differ (getAllBackends h) (Backends h)"
  shows "classify (isBackendsModified h (getAllBackends h))
           = Some (EnableDisableOnly (spec_commands (getAllBackends h) (Backends h)))
         \<and> (DoSocket (Configuration h)
              \<and> socket_pass_succeeds env h (spec_commands (getAllBackends h) (Backends h))
            \<longrightarrow> filter is_reload (snd (Run_tick h env)) = [])"
proof -
  let ?B = "getAllBackends h"
  let ?cmds = "spec_commands ?B (Backends h)"
  from differ have ne: "?cmds \<noteq> []" by (simp add: flags_differ_commands)
  have "isBackendsModified h ?B = (?cmds \<noteq> [], False, ?cmds, None)"
    using length_getAllBackends same by (rule isBackendsModified_flags)
  with ne have res: "isBackendsModified h ?B = (True, False, ?cmds, None)" by simp
  then have "classify (isBackendsModified h ?B) = Some (EnableDisableOnly ?cmds)"
    by (simp add: classify_def)
  moreover have "filter is_reload (snd (Run_tick h env)) = []"
    if "DoSocket (Configuration h)" and "socket_pass_succeeds env h ?cmds"
    unfolding Run_tick_def using res that by (rule Run_iteration_socket_no_reload)
  ultimately show ?thesis by blast
qed

theorem enable_disable_only_witness:
  "same_servers (getAllBackends (example_HAProxy [example_backend False 10] True))
                (Backends (example_HAProxy [example_backend False 10] True))
   \<and> flags_differ (getAllBackends (example_HAProxy [example_backend False 10] True))
                   (Backends (example_HAProxy [example_backend False 10] True))
   \<and> DoSocket (Configuration (example_HAProxy [example_backend False 10] True))
   \<and> socket_pass_succeeds (example_env writes_succeed ''\<newline>'')
        (example_HAProxy [example_backend False 10] True) [''disable server web/a'']
   \<and> classify (isBackendsModified (example_HAProxy [example_backend False 10] True)
                  (getAllBackends (example_HAProxy [example_backend False 10] True)))
       = Some (EnableDisableOnly [''disable server web/a''])
   \<and> filter is_reload
         (snd (Run_tick (example_HAProxy [example_backend False 10] True)
                 (example_env writes_succeed ''\<newline>''))) = []"
  using enable_disable_only [of "example_HAProxy [example_backend False 10] True"
                                "example_env writes_succeed ''\<newline>''"]
  by (simp add: getAllBackends_example example_HAProxy_simps example_spec_commands
        example_same_servers example_flags_differ example_socket_pass)
     (simp add: example_Configuration_def)




text \<open>
  Claim C6. At startup (the reconciler as \<open>Initialize\<close> leaves it, with an empty
  applied snapshot), if the state file exists and its modification time is more than
  2000 ms before now, \<open>LoadState\<close> ignores it: it returns without an error and the
  applied snapshot is empty. Hence a state file is adopted only if its modification
  time is at most 2000 ms old. A file that is exactly 2000 ms old is still read.
\<close>

theorem state_file_freshness:
  "(snd (os_Stat env stateFile) = None
      \<and> time_Now env - fst (os_Stat env stateFile) > 2000 * Millisecond
    \<longrightarrow> LoadState env (Initialize conf services stateFile writeInterval zero_HAProxy)
          = (Initialize conf services stateFile writeInterval zero_HAProxy, None)
        \<and> Backends (fst (LoadState env (Initialize conf services stateFile writeInterval zero_HAProxy))) = [])
   \<and> (Backends (fst (LoadState env (Initialize conf services stateFile writeInterval zero_HAProxy))) \<noteq> []
    \<longrightarrow> snd (os_Stat env stateFile) = None
        \<and> time_Now env - fst (os_Stat env stateFile) \<le> 2000 * Millisecond)"
proof -
  let ?h = "Initialize conf services stateFile writeInterval zero_HAProxy"
  have sf: "StateFile ?h = stateFile" and b: "Backends ?h = []"
    by (simp_all add: Initialize_def zero_HAProxy_def)
  have "LoadState env ?h = (?h, None)"
    if "snd (os_Stat env stateFile) = None"
      and "time_Now env - fst (os_Stat env stateFile) > 2000 * Millisecond"
  proof (rule LoadState_expired)
    show "os_Stat env (StateFile ?h) = (fst (os_Stat env stateFile), None)"
      using that(1) sf by (metis prod.collapse)
    show "time_Now env - fst (os_Stat env stateFile) > 2000 * Millisecond"
      by (rule that(2))
  qed
  moreover have "snd (os_Stat env stateFile) = None
        \<and> time_Now env - fst (os_Stat env stateFile) \<le> 2000 * Millisecond"
    if "Backends (fst (LoadState env ?h)) \<noteq> []"
    using LoadState_adopts_only_fresh [of env ?h] that sf b by simp
  ultimately show ?thesis using b by auto
qed

theorem state_file_freshness_witness:
  "snd (os_Stat (example_load_env (3001 * Millisecond)) ''/tmp/state'') = None
   \<and> time_Now (example_load_env (3001 * Millisecond))
        - fst (os_Stat (example_load_env (3001 * Millisecond)) ''/tmp/state'') > 2000 * Millisecond
   \<and> Backends (fst (LoadState (example_load_env (3001 * Millisecond))
                       (Initialize example_Configuration [] ''/tmp/state'' 0 zero_HAProxy))) = []
   \<and> Backends (fst (LoadState (example_load_env (3000 * Millisecond))
                       (Initialize example_Configuration [] ''/tmp/state'' 0 zero_HAProxy))) \<noteq> []
   \<and> time_Now (example_load_env (3000 * Millisecond))
        - fst (os_Stat (example_load_env (3000 * Millisecond)) ''/tmp/state'') \<le> 2000 * Millisecond"
proof -
  have stale: "snd (os_Stat (example_load_env (3001 * Millisecond)) ''/tmp/state'') = None"
    "time_Now (example_load_env (3001 * Millisecond))
        - fst (os_Stat (example_load_env (3001 * Millisecond)) ''/tmp/state'') > 2000 * Millisecond"
    by (simp_all add: example_load_env_def Millisecond_def)
  have fresh: "Backends (fst (LoadState (example_load_env (3000 * Millisecond))
                       (Initialize example_Configuration [] ''/tmp/state'' 0 zero_HAProxy))) \<noteq> []"
    by (simp add: LoadState_def example_load_env_def Millisecond_def Initialize_def Let_def)
  from state_file_freshness [of "example_load_env (3001 * Millisecond)" "''/tmp/state''"
         example_Configuration "[]" 0]
       state_file_freshness [of "example_load_env (3000 * Millisecond)" "''/tmp/state''"
         example_Configuration "[]" 0]
       stale fresh
  show ?thesis by blast
qed

text \<open>
  Claim C7. For an iteration in which the number of candidate backends differs from
  the number of configured services, the Differ returns an error, the iteration is
  skipped, the reconciler (and so the applied snapshot) is unchanged and no I/O call
  is made: state file, config file and proxy are left as they are.
\<close>

theorem backend_count_mismatch_skips_tick:
  assumes "length backends \<noteq> length (Services h)"
  shows "snd (snd (snd (isBackendsModified h backends))) \<noteq> None
         \<and> classify (isBackendsModified h backends) = None
         \<and> Run_iteration h backends env = (h, [])"
  using assms by (simp add: isBackendsModified_def classify_def Run_iteration_def)

theorem backend_count_mismatch_skips_tick_witness:
  "length ([] :: HAProxyBackendSlice) \<noteq> length (Services (example_HAProxy [example_backend False 10] False))
   \<and> classify (isBackendsModified (example_HAProxy [example_backend False 10] False) []) = None
   \<and> Run_iteration (example_HAProxy [example_backend False 10] False) []
        (example_env writes_succeed ''\<newline>'')
      = (example_HAProxy [example_backend False 10] False, [])"
  using backend_count_mismatch_skips_tick [of "[]" "example_HAProxy [example_backend False 10] False"
                                              "example_env writes_succeed ''\<newline>''"]
  by (simp add: example_HAProxy_simps)

text \<open>
  Claim C8. If the candidate of a tick equals the applied snapshot, the Differ
  returns NoChange and the tick makes no I/O call. In particular, of two consecutive
  ticks with the same Discovery Source outputs the second one returns NoChange and
  makes no I/O call, whatever the first one did and whatever the operating system
  answers.
\<close>

theorem no_change_no_io:
  "(getAllBackends h = Backends h \<longrightarrow>
      classify (isBackendsModified h (getAllBackends h)) = Some NoChange
      \<and> Run_tick h env = (h, []))
   \<and> classify (isBackendsModified (fst (Run_tick h env)) (getAllBackends (fst (Run_tick h env))))
       = Some NoChange
   \<and> Run_tick (fst (Run_tick h env)) env' = (fst (Run_tick h env), [])"
proof -
  have "classify (isBackendsModified h (getAllBackends h)) = Some NoChange \<and> Run_tick h env = (h, [])"
    if same: "getAllBackends h = Backends h"
  proof -
    have "length (Backends h) = length (Services h)"
      using length_getAllBackends [of h] same by simp
    then have "isBackendsModified h (Backends h) = (False, False, [], None)"
      by (rule isBackendsModified_same)
    with same show ?thesis
      by (simp add: classify_def Run_tick_def Run_iteration_def)
  qed
  with Run_tick_twice [of h env env'] show ?thesis by blast
qed

theorem no_change_no_io_witness:
  "getAllBackends (example_HAProxy [example_backend False 10] False)
     = Backends (example_HAProxy [example_backend False 10] False)
   \<and> classify (isBackendsModified (example_HAProxy [example_backend False 10] False)
                  (getAllBackends (example_HAProxy [example_backend False 10] False)))
       = Some NoChange
   \<and> Run_tick (example_HAProxy [example_backend False 10] False) (example_env writes_succeed ''\<newline>'')
      = (example_HAProxy [example_backend False 10] False, [])"
  using no_change_no_io [of "example_HAProxy [example_backend False 10] False"
                            "example_env writes_succeed ''\<newline>''"]
  by (simp add: getAllBackends_example example_HAProxy_simps)

text \<open>
  Claim C9. Two candidate snapshots that are equal once every weight is set to zero,
  that is, that differ in weights only, get the same result from the Differ (flags,
  socket commands, error) and the same text of the config file.
\<close>

theorem Weight_is_inert:
  assumes "without_Weight candidate1 = without_Weight candidate2"
  shows "isBackendsModified h candidate1 = isBackendsModified h candidate2
         \<and> configuration_data (h\<lparr>Backends := candidate1\<rparr>)
             = configuration_data (h\<lparr>Backends := candidate2\<rparr>)"
proof -
  have "isBackendsModified h candidate1 = isBackendsModified h (without_Weight candidate1)"
    by (simp only: isBackendsModified_without_Weight)
  also have "\<dots> = isBackendsModified h candidate2"
    by (simp only: assms isBackendsModified_without_Weight)
  finally have differ: "isBackendsModified h candidate1 = isBackendsModified h candidate2" .
  have "configuration_data (h\<lparr>Backends := candidate1\<rparr>)
          = configuration_data (h\<lparr>Backends := without_Weight candidate1\<rparr>)"
    by (simp only: configuration_data_without_Weight)
  also have "\<dots> = configuration_data (h\<lparr>Backends := candidate2\<rparr>)"
    by (simp only: assms configuration_data_without_Weight)
  finally show ?thesis using differ by simp
qed

theorem Weight_is_inert_witness:
  "without_Weight [example_backend True 10] = without_Weight [example_backend True 200]
   \<and> [example_backend True 10] \<noteq> [example_backend True 200]
   \<and> isBackendsModified (example_HAProxy [example_backend False 10] True) [example_backend True 10]
       = isBackendsModified (example_HAProxy [example_backend False 10] True) [example_backend True 200]
   \<and> configuration_data ((example_HAProxy [example_backend False 10] True)\<lparr>Backends := [example_backend True 10]\<rparr>)
       = configuration_data ((example_HAProxy [example_backend False 10] True)\<lparr>Backends := [example_backend True 200]\<rparr>)"
  using Weight_is_inert [of "[example_backend True 10]" "[example_backend True 200]"
                            "example_HAProxy [example_backend False 10] True"]
  by (simp add: without_Weight_def example_backend_def)

text \<open>
  Claim C10. The candidate the Assembler builds has exactly one backend for each
  configured service, so the Differ never returns its backend-count error on it.
\<close>

theorem one_backend_per_service:
  "length (getAllBackends h) = length (Services h)
   \<and> snd (snd (snd (isBackendsModified h (getAllBackends h)))) = None"
  by (simp add: length_getAllBackends isBackendsModified_def split: prod.splits)

end
